theory Spec2Isabelle
  imports Main "HOL-Library.Word"
begin

section \<open>Python values, errors and dictionaries\<close>

text \<open>
  The model follows \<^verbatim>\<open>python/neuroglancer/viewer_state.py\<close>. An exception is a value
  of \<open>error\<close>. A method that mutates its object returns an \<open>outcome\<close>: the object as the
  call leaves it, whether the call returned or raised, so that a mutation made before
  a \<^verbatim>\<open>raise\<close> stays visible. A function that builds a new value returns
  \<open>error + 'a\<close>.
\<close>

datatype error = AttributeError | KeyError | TypeError | ValueError | OverflowError

datatype 's outcome = Returned 's | Raised error 's

text \<open>
  The Python values that reach \<^verbatim>\<open>StarredSegments._update\<close> as items. \<open>POther\<close> stands
  for every value that is neither \<^verbatim>\<open>numbers.Integral\<close>, nor \<^verbatim>\<open>str\<close>, nor
  \<^verbatim>\<open>tuple\<close> (\<^verbatim>\<open>None\<close>, a float, a list, ...).
\<close>

datatype pyval = PInt int | PBool bool | PStr string | PTuple "pyval list" | POther

text \<open>\<^verbatim>\<open>isinstance(x, numbers.Integral)\<close>, with the integer: \<^verbatim>\<open>bool\<close> is a subclass of \<^verbatim>\<open>int\<close>.\<close>

fun integral :: "pyval \<Rightarrow> int option" where
  "integral (PInt i) = Some i"
| "integral (PBool b) = Some (if b then 1 else 0)"
| "integral _ = None"

text \<open>
  A \<^verbatim>\<open>dict\<close> is an association list in insertion order with one entry per key:
  \<open>dict_set\<close> is \<^verbatim>\<open>d[k] = v\<close> (an existing key keeps its place, a new key goes last),
  \<open>dict_pop_default\<close> is \<^verbatim>\<open>d.pop(k, None)\<close>, \<open>dict_del\<close> is \<^verbatim>\<open>del d[k]\<close> and
  \<^verbatim>\<open>d.pop(k)\<close>, \<open>dict_update\<close> is \<^verbatim>\<open>d.update(other)\<close>, \<open>dict_eq\<close> is \<^verbatim>\<open>d == other\<close>.
\<close>

type_synonym ('k, 'v) dict = "('k \<times> 'v) list"

definition dict_get :: "('k, 'v) dict \<Rightarrow> 'k \<Rightarrow> 'v option" where
  "dict_get d k = map_of d k"

definition dict_contains :: "('k, 'v) dict \<Rightarrow> 'k \<Rightarrow> bool" where
  "dict_contains d k = (map_of d k \<noteq> None)"

primrec dict_set :: "'k \<Rightarrow> 'v \<Rightarrow> ('k, 'v) dict \<Rightarrow> ('k, 'v) dict" where
  "dict_set k v [] = [(k, v)]"
| "dict_set k v (p # ps) = (if fst p = k then (k, v) # ps else p # dict_set k v ps)"

definition dict_pop_default :: "'k \<Rightarrow> ('k, 'v) dict \<Rightarrow> ('k, 'v) dict" where
  "dict_pop_default k d = filter (\<lambda>p. fst p \<noteq> k) d"

definition dict_del :: "'k \<Rightarrow> ('k, 'v) dict \<Rightarrow> error + ('k, 'v) dict" where
  "dict_del k d = (if dict_contains d k then Inr (dict_pop_default k d) else Inl KeyError)"

primrec dict_update :: "('k, 'v) dict \<Rightarrow> ('k, 'v) dict \<Rightarrow> ('k, 'v) dict" where
  "dict_update d [] = d"
| "dict_update d (p # ps) = dict_update (dict_set (fst p) (snd p) d) ps"

definition dict_eq :: "('k, 'v) dict \<Rightarrow> ('k, 'v) dict \<Rightarrow> bool" where
  "dict_eq d e = list_all (\<lambda>k. map_of d k = map_of e k) (map fst d @ map fst e)"

section \<open>The unsigned 64-bit conversion\<close>

text \<open>
  \<^verbatim>\<open>np.uint64\<close> is NumPy's, not this repository's. What every NumPy does is fixed here:
  a Python integer in \<open>0 .. 2^64 - 1\<close> converts to the scalar of that value, and a string
  of decimal digits converts as the integer it spells. What NumPy does with the other
  arguments is a parameter of the model, a \<open>numpy\<close>: \<open>out_of_range\<close> answers for a Python
  integer outside the range and \<open>not_digits\<close> for a string that is not a string of
  digits. Either answer is an exception or a 64-bit scalar, so whatever the conversion
  returns is a \<open>64 word\<close>.
\<close>

record numpy =
  out_of_range :: "int \<Rightarrow> error + 64 word"
  not_digits :: "string \<Rightarrow> error + 64 word"

definition np_uint64 :: "numpy \<Rightarrow> int \<Rightarrow> error + 64 word" where
  "np_uint64 np i = (if 0 \<le> i \<and> i < 2 ^ 64 then Inr (word_of_int i) else out_of_range np i)"

definition is_digit :: "char \<Rightarrow> bool" where
  "is_digit c = (48 \<le> (of_char c :: nat) \<and> (of_char c :: nat) \<le> 57)"

definition decimal :: "string \<Rightarrow> int" where
  "decimal s = foldl (\<lambda>a c. 10 * a + (int (of_char c) - 48)) 0 s"

definition np_uint64_str :: "numpy \<Rightarrow> string \<Rightarrow> error + 64 word" where
  "np_uint64_str np s =
     (if s \<noteq> [] \<and> list_all is_digit s then np_uint64 np (decimal s) else not_digits np s)"

text \<open>
  The conversion of NumPy 2: an integer outside the range raises \<^verbatim>\<open>OverflowError\<close>; a
  string is read as \<^verbatim>\<open>int(s)\<close> reads it (blanks around it, a sign, digits with single
  underscores between them), \<^verbatim>\<open>ValueError\<close> when it is no such literal, and the integer
  is converted as above.
\<close>

definition is_space :: "char \<Rightarrow> bool" where
  "is_space c = ((of_char c :: nat) \<in> {9, 10, 11, 12, 13, 32})"

definition strip :: "string \<Rightarrow> string" where
  "strip s = rev (dropWhile is_space (rev (dropWhile is_space s)))"

fun digits_ok :: "string \<Rightarrow> bool" where
  "digits_ok [] = False"
| "digits_ok [c] = is_digit c"
| "digits_ok (c # d # s) =
     (is_digit c \<and> (if d = CHR ''_'' then digits_ok s else digits_ok (d # s)))"

definition int_literal :: "string \<Rightarrow> int option" where
  "int_literal s =
     (let body = (case strip s of [] \<Rightarrow> [] | c # r \<Rightarrow> if c = CHR ''-'' \<or> c = CHR ''+'' then r else c # r);
          sign = (case strip s of [] \<Rightarrow> 1 | c # r \<Rightarrow> if c = CHR ''-'' then - 1 else 1)
      in if digits_ok body then Some (sign * decimal (filter (\<lambda>c. c \<noteq> CHR ''_'') body)) else None)"

definition numpy2 :: numpy where
  "numpy2 = \<lparr> out_of_range = (\<lambda>i. Inl OverflowError),
              not_digits = (\<lambda>s. case int_literal s of
                                   None \<Rightarrow> Inl ValueError
                                 | Some i \<Rightarrow> if 0 \<le> i \<and> i < 2 ^ 64 then Inr (word_of_int i)
                                            else Inl OverflowError) \<rparr>"

section \<open>StarredSegments\<close>

text \<open>
  The class keeps \<^verbatim>\<open>_readonly\<close>, \<^verbatim>\<open>_data\<close> (segment to visibility) and \<^verbatim>\<open>_visible\<close>
  (the segments stored with \<^verbatim>\<open>True\<close>). A key is the integer a segment id denotes:
  a \<^verbatim>\<open>np.uint64\<close> scalar and the Python integer of the same value are one dictionary key.
\<close>

record StarredSegments =
  s_readonly :: bool
  s_data :: "(int, bool) dict"
  s_visible :: "(int, bool) dict"

text \<open>The argument of \<^verbatim>\<open>_update\<close>, by the branch of its \<^verbatim>\<open>isinstance\<close> tests.\<close>

datatype source =
    FromStarred StarredSegments
  | FromMapping "(pyval \<times> pyval) list"
  | FromIterable "pyval list"

text \<open>
  \<^verbatim>\<open>for k, v in other._data\<close> iterates the keys of a dictionary, and unpacking an
  integer key raises \<^verbatim>\<open>TypeError\<close>.
\<close>

definition unpack_key :: "int \<Rightarrow> error + (int \<times> bool)" where
  "unpack_key key = Inl TypeError"

fun prune_hidden :: "(int, bool) dict \<Rightarrow> int list \<Rightarrow> error + (int, bool) dict" where
  "prune_hidden vis [] = Inr vis"
| "prune_hidden vis (key # keys) =
     (case unpack_key key of
        Inl e \<Rightarrow> Inl e
      | Inr (k, v) \<Rightarrow> prune_hidden (if \<not> v then dict_pop_default k vis else vis) keys)"

text \<open>\<^verbatim>\<open>item.startswith("!")\<close>, and the item with \<^verbatim>\<open>item[1:]\<close> taken when it does.\<close>

definition startswith_bang :: "string \<Rightarrow> bool" where
  "startswith_bang s = (case s of [] \<Rightarrow> False | c # _ \<Rightarrow> c = CHR ''!'')"

definition unmarked :: "string \<Rightarrow> string" where
  "unmarked s = (if startswith_bang s then tl s else s)"

text \<open>One item of the loop of \<^verbatim>\<open>_update\<close>: the key and the flag it stores, or the exception.\<close>

definition parse_integral :: "numpy \<Rightarrow> int \<Rightarrow> error + (int \<times> bool)" where
  "parse_integral np item =
     (case np_uint64 np item of
        Inl e \<Rightarrow> Inl e
      | Inr k \<Rightarrow> if uint k \<noteq> item then Inl ValueError else Inr (uint k, True))"

fun parse_item :: "numpy \<Rightarrow> pyval \<Rightarrow> error + (int \<times> bool)" where
  "parse_item np (PInt i) = parse_integral np i"
| "parse_item np (PBool b) = parse_integral np (if b then 1 else 0)"
| "parse_item np (PStr s) =
     (let v = \<not> startswith_bang s;
          item = unmarked s
      in case np_uint64_str np item of Inl e \<Rightarrow> Inl e | Inr k \<Rightarrow> Inr (uint k, v))"
| "parse_item np (PTuple xs) =
     (case xs of
        [k, v] \<Rightarrow>
          (case integral k of
             None \<Rightarrow> Inl TypeError
           | Some i \<Rightarrow>
               (case np_uint64 np i of
                  Inl e \<Rightarrow> Inl e
                | Inr w \<Rightarrow>
                    if uint w \<noteq> i then Inl TypeError
                    else (case v of PBool b \<Rightarrow> Inr (uint w, b) | _ \<Rightarrow> Inl TypeError)))
      | _ \<Rightarrow> Inl ValueError)"
| "parse_item np POther = Inl TypeError"

text \<open>\<^verbatim>\<open>data[k] = v\<close>, then \<^verbatim>\<open>visible[k] = True\<close> or \<^verbatim>\<open>visible.pop(k, None)\<close>.\<close>

definition store :: "StarredSegments \<Rightarrow> int \<Rightarrow> bool \<Rightarrow> StarredSegments" where
  "store s k v =
     s\<lparr> s_data := dict_set k v (s_data s),
        s_visible := (if v then dict_set k True (s_visible s) else dict_pop_default k (s_visible s)) \<rparr>"

fun update_items :: "numpy \<Rightarrow> StarredSegments \<Rightarrow> pyval list \<Rightarrow> StarredSegments outcome" where
  "update_items np s [] = Returned s"
| "update_items np s (item # items) =
     (case parse_item np item of
        Inl e \<Rightarrow> Raised e s
      | Inr (k, v) \<Rightarrow> update_items np (store s k v) items)"

definition update_internal :: "numpy \<Rightarrow> StarredSegments \<Rightarrow> source \<Rightarrow> StarredSegments outcome" where
  "update_internal np s other =
     (case other of
        FromStarred o' \<Rightarrow>
          (let s1 = s\<lparr> s_data := dict_update (s_data s) (s_data o') \<rparr>
           in case prune_hidden (s_visible s1) (map fst (s_data o')) of
                Inl e \<Rightarrow> Raised e s1
              | Inr vis \<Rightarrow> Returned (s1\<lparr> s_visible := dict_update vis (s_visible o') \<rparr>))
      | FromMapping m \<Rightarrow> update_items np s (map (\<lambda>(k, v). PTuple [k, v]) m)
      | FromIterable items \<Rightarrow> update_items np s items)"

text \<open>\<^verbatim>\<open>StarredSegments(json_data, _readonly)\<close>: no object exists when \<^verbatim>\<open>__init__\<close> raises.\<close>

definition StarredSegments_init :: "numpy \<Rightarrow> source option \<Rightarrow> bool \<Rightarrow> error + StarredSegments" where
  "StarredSegments_init np json_data ro =
     (let s = \<lparr> s_readonly = ro, s_data = [], s_visible = [] \<rparr>
      in case json_data of
           None \<Rightarrow> Inr s
         | Some other \<Rightarrow>
             (case update_internal np s other of Returned s' \<Rightarrow> Inr s' | Raised e _ \<Rightarrow> Inl e))"

definition copy :: "numpy \<Rightarrow> StarredSegments \<Rightarrow> error + StarredSegments" where
  "copy np s = StarredSegments_init np (Some (FromStarred s)) False"

definition len :: "StarredSegments \<Rightarrow> nat" where
  "len s = length (s_data s)"

definition contains :: "StarredSegments \<Rightarrow> int \<Rightarrow> bool" where
  "contains s segment_id = dict_contains (s_data s) segment_id"

definition keys :: "StarredSegments \<Rightarrow> int list" where
  "keys s = map fst (s_data s)"

definition items :: "StarredSegments \<Rightarrow> (int \<times> bool) list" where
  "items s = s_data s"

definition eq_starred :: "StarredSegments \<Rightarrow> StarredSegments \<Rightarrow> bool" where
  "eq_starred s other = dict_eq (s_data s) (s_data other)"

definition eq_dict :: "StarredSegments \<Rightarrow> (int, bool) dict \<Rightarrow> bool" where
  "eq_dict s other = dict_eq (s_data s) other"

definition get :: "StarredSegments \<Rightarrow> int \<Rightarrow> bool option" where
  "get s segment_id = dict_get (s_data s) segment_id"

definition getitem :: "StarredSegments \<Rightarrow> int \<Rightarrow> error + bool" where
  "getitem s segment_id =
     (case dict_get (s_data s) segment_id of None \<Rightarrow> Inl KeyError | Some v \<Rightarrow> Inr v)"

definition setitem :: "StarredSegments \<Rightarrow> int \<Rightarrow> bool \<Rightarrow> StarredSegments outcome" where
  "setitem s segment_id vis =
     (if s_readonly s then Raised AttributeError s else Returned (store s segment_id vis))"

text \<open>\<^verbatim>\<open>setdefault\<close> of \<^verbatim>\<open>MutableMapping\<close>: \<^verbatim>\<open>self[key]\<close>, and on \<^verbatim>\<open>KeyError\<close> \<^verbatim>\<open>self[key] = default\<close>.\<close>

definition add :: "StarredSegments \<Rightarrow> int \<Rightarrow> StarredSegments outcome" where
  "add s segment_id =
     (if s_readonly s then Raised AttributeError s
      else case getitem s segment_id of
             Inr _ \<Rightarrow> Returned s
           | Inl _ \<Rightarrow> setitem s segment_id True)"

definition remove :: "StarredSegments \<Rightarrow> int \<Rightarrow> StarredSegments outcome" where
  "remove s segment_id =
     (if s_readonly s then Raised AttributeError s
      else case dict_del segment_id (s_data s) of
             Inl e \<Rightarrow> Raised e s
           | Inr d \<Rightarrow>
               (let s1 = s\<lparr> s_data := d \<rparr>
                in case dict_del segment_id (s_visible s1) of
                     Inl e \<Rightarrow> Raised e s1
                   | Inr vis \<Rightarrow> Returned (s1\<lparr> s_visible := vis \<rparr>)))"

definition discard :: "StarredSegments \<Rightarrow> int \<Rightarrow> StarredSegments outcome" where
  "discard s segment_id =
     Returned (s\<lparr> s_data := dict_pop_default segment_id (s_data s),
                  s_visible := dict_pop_default segment_id (s_visible s) \<rparr>)"

definition delitem :: "StarredSegments \<Rightarrow> int \<Rightarrow> StarredSegments outcome" where
  "delitem s segment_id =
     (if s_readonly s then Raised AttributeError s
      else case dict_del segment_id (s_data s) of
             Inl e \<Rightarrow> Raised e s
           | Inr d \<Rightarrow>
               Returned (s\<lparr> s_data := d, s_visible := dict_pop_default segment_id (s_visible s) \<rparr>))"

definition clear :: "StarredSegments \<Rightarrow> StarredSegments outcome" where
  "clear s =
     (if s_readonly s then Raised AttributeError s
      else Returned (s\<lparr> s_data := [], s_visible := [] \<rparr>))"

definition update :: "numpy \<Rightarrow> StarredSegments \<Rightarrow> source \<Rightarrow> StarredSegments outcome" where
  "update np s other =
     (if s_readonly s then Raised AttributeError s else update_internal np s other)"

text \<open>The decimal text of a segment id, as an f-string writes it.\<close>

fun str_nat :: "nat \<Rightarrow> string" where
  "str_nat n =
     (if n < 10 then [char_of (48 + n)] else str_nat (n div 10) @ [char_of (48 + n mod 10)])"

definition str_int :: "int \<Rightarrow> string" where
  "str_int i = (if i < 0 then CHR ''-'' # str_nat (nat (- i)) else str_nat (nat i))"

definition to_json :: "StarredSegments \<Rightarrow> string list" where
  "to_json s =
     map (\<lambda>(segment, vis). if vis then str_int segment else CHR ''!'' # str_int segment) (items s)"

text \<open>
  The setter of the property \<^verbatim>\<open>visible\<close>: the new dictionary is built first and
  assigned last, and the read-only flag is not consulted.
\<close>

fun visible_dict :: "numpy \<Rightarrow> (int, bool) dict \<Rightarrow> int list \<Rightarrow> error + (int, bool) dict" where
  "visible_dict np new_dict [] = Inr new_dict"
| "visible_dict np new_dict (k # segments) =
     (case np_uint64 np k of
        Inl e \<Rightarrow> Inl e
      | Inr num_k \<Rightarrow>
          if uint num_k \<noteq> k then Inl ValueError
          else visible_dict np (dict_set (uint num_k) True new_dict) segments)"

definition set_visible :: "numpy \<Rightarrow> StarredSegments \<Rightarrow> int list \<Rightarrow> StarredSegments outcome" where
  "set_visible np s segments =
     (case visible_dict np [] segments of
        Inl e \<Rightarrow> Raised e s
      | Inr new_dict \<Rightarrow> Returned (s\<lparr> s_data := new_dict, s_visible := new_dict \<rparr>))"

section \<open>ManagedLayer\<close>

text \<open>
  JSON values as the wrappers hold them. A JSON number with a fraction has no
  constructor: no function below reads one.
\<close>

datatype json = JNull | JBool bool | JInt int | JStr string | JList "json list"
  | JObj "(string \<times> json) list"

text \<open>
  A \<^verbatim>\<open>ManagedLayer\<close> has a name and a layer, and two wrapped properties of its own:
  \<^verbatim>\<open>_visible\<close>, declared \<^verbatim>\<open>optional(bool)\<close>, which reads \<^verbatim>\<open>None\<close>, \<^verbatim>\<open>True\<close> or \<^verbatim>\<open>False\<close>,
  and \<^verbatim>\<open>archived\<close>, declared \<^verbatim>\<open>optional(bool, False)\<close>. The record holds the values
  these properties read, and for the layer the dictionary \<^verbatim>\<open>self.layer.to_json()\<close>
  returns (any dictionary: it may well hold the keys \<^verbatim>\<open>visible\<close> and \<^verbatim>\<open>archived\<close>).

  Modelled from the spec: \<^verbatim>\<open>wrapped_property\<close> and \<^verbatim>\<open>optional\<close> (module \<^verbatim>\<open>json_wrappers\<close>)
  are not among the sources. By the spec a typed field is read from the backing
  mapping on demand, and \<^verbatim>\<open>optional(inner, default)\<close> passes \<^verbatim>\<open>None\<close> or an absent key
  through as the default and delegates to \<^verbatim>\<open>inner\<close> otherwise; with \<^verbatim>\<open>bool\<close> for
  \<^verbatim>\<open>inner\<close> the value read is a boolean or the default.
\<close>

record ManagedLayer =
  m_name :: string
  m_layer_json :: "(string, json) dict"
  m_visible :: "bool option"
  m_archived :: bool

definition ManagedLayer_visible :: "ManagedLayer \<Rightarrow> bool" where
  "ManagedLayer_visible m = (\<not> m_archived m \<and> m_visible m \<noteq> Some False)"

definition ManagedLayer_to_json :: "ManagedLayer \<Rightarrow> (string, json) dict" where
  "ManagedLayer_to_json m =
     (let r0 = m_layer_json m;
          r1 = dict_set ''name'' (JStr (m_name m)) r0;
          archived = m_archived m;
          r2 = (if \<not> archived then dict_pop_default ''archived'' r1
                else dict_set ''archived'' (JBool True) r1);
          vis = ManagedLayer_visible m
      in if vis \<or> archived then dict_pop_default ''visible'' r2
         else dict_set ''visible'' (JBool False) r2)"

section \<open>Tools and the factory\<close>

text \<open>The classes of tools: the base class, \<^verbatim>\<open>LayerTool\<close>, and the registered ones.\<close>

datatype tool_class =
    Tool | LayerTool
  | PlacePointTool | PlaceLineTool | PlaceBoundingBoxTool | PlaceEllipsoidTool
  | BlendTool | OpacityTool | VolumeRenderingTool | VolumeRenderingGainTool
  | VolumeRenderingDepthSamplesTool | CrossSectionRenderScaleTool | SelectedAlphaTool
  | NotSelectedAlphaTool | ObjectAlphaTool | HideSegmentZeroTool | HoverHighlightTool
  | BaseSegmentColoringTool | IgnoreNullVisibleSetTool | ColorSeedTool
  | SegmentDefaultColorTool | MeshRenderScaleTool | MeshSilhouetteRenderingTool
  | SaturationTool | SkeletonRenderingMode2dTool | SkeletonRenderingMode3dTool
  | SkeletonRenderingLineWidth2dTool | SkeletonRenderingLineWidth3dTool
  | ShaderControlTool | MergeSegmentsTool | SplitSegmentsTool | SelectSegmentsTool
  | DimensionTool

text \<open>
  \<^verbatim>\<open>tool_types\<close>, as the decorator \<^verbatim>\<open>export_tool\<close> fills it: each class under its
  \<^verbatim>\<open>TOOL_TYPE\<close>, in the order of the class statements.
\<close>

definition tool_types :: "(string, tool_class) dict" where
  "tool_types =
     [(''annotatePoint'', PlacePointTool), (''annotateLine'', PlaceLineTool),
      (''annotateBoundingBox'', PlaceBoundingBoxTool), (''annotateSphere'', PlaceEllipsoidTool),
      (''blend'', BlendTool), (''opacity'', OpacityTool),
      (''volumeRendering'', VolumeRenderingTool),
      (''volumeRenderingGain'', VolumeRenderingGainTool),
      (''volumeRenderingDepthSamples'', VolumeRenderingDepthSamplesTool),
      (''crossSectionRenderScale'', CrossSectionRenderScaleTool),
      (''selectedAlpha'', SelectedAlphaTool), (''notSelectedAlpha'', NotSelectedAlphaTool),
      (''objectAlpha'', ObjectAlphaTool), (''hideSegmentZero'', HideSegmentZeroTool),
      (''hoverHighlight'', HoverHighlightTool),
      (''baseSegmentColoring'', BaseSegmentColoringTool),
      (''ignoreNullVisibleSet'', IgnoreNullVisibleSetTool), (''colorSeed'', ColorSeedTool),
      (''segmentDefaultColor'', SegmentDefaultColorTool),
      (''meshRenderScale'', MeshRenderScaleTool),
      (''meshSilhouetteRendering'', MeshSilhouetteRenderingTool),
      (''saturation'', SaturationTool),
      (''skeletonRendering.mode2d'', SkeletonRenderingMode2dTool),
      (''skeletonRendering.mode3d'', SkeletonRenderingMode3dTool),
      (''skeletonRendering.lineWidth2d'', SkeletonRenderingLineWidth2dTool),
      (''skeletonRendering.lineWidth3d'', SkeletonRenderingLineWidth3dTool),
      (''shaderControl'', ShaderControlTool), (''mergeSegments'', MergeSegmentsTool),
      (''splitSegments'', SplitSegmentsTool), (''selectSegments'', SelectSegmentsTool),
      (''dimension'', DimensionTool)]"

text \<open>
  The class attribute \<^verbatim>\<open>TOOL_TYPE\<close>: a registered class has the string it is registered
  under; \<^verbatim>\<open>Tool\<close> and \<^verbatim>\<open>LayerTool\<close> only annotate the name, and reading it raises
  \<^verbatim>\<open>AttributeError\<close>.
\<close>

definition TOOL_TYPE :: "tool_class \<Rightarrow> error + string" where
  "TOOL_TYPE c =
     (case filter (\<lambda>p. snd p = c) tool_types of
        [] \<Rightarrow> Inl AttributeError
      | p # _ \<Rightarrow> Inr (fst p))"

text \<open>
  \<^verbatim>\<open>issubclass(c, b)\<close>: the four classes that place an annotation derive from \<^verbatim>\<open>Tool\<close>,
  every other registered class from \<^verbatim>\<open>LayerTool\<close>, which derives from \<^verbatim>\<open>Tool\<close>.
\<close>

definition issubclass :: "tool_class \<Rightarrow> tool_class \<Rightarrow> bool" where
  "issubclass c b =
     (c = b \<or> b = Tool
      \<or> (b = LayerTool
          \<and> c \<notin> {Tool, PlacePointTool, PlaceLineTool, PlaceBoundingBoxTool, PlaceEllipsoidTool}))"

record tool =
  t_class :: tool_class
  t_json_data :: "(string, json) dict"

text \<open>What is passed for \<^verbatim>\<open>obj\<close>: nothing, a string, a dictionary, a tool, anything else.\<close>

datatype tool_arg = ArgNone | ArgStr string | ArgDict "(string, json) dict" | ArgTool tool
  | ArgOther

text \<open>
  The construction of a tool is modelled for the calls that pass \<^verbatim>\<open>obj\<close> alone: no
  keyword argument, and \<^verbatim>\<open>_readonly\<close> left at \<^verbatim>\<open>False\<close>. The one keyword argument
  that reaches the base class is then the \<^verbatim>\<open>type=tool_type\<close> that \<^verbatim>\<open>Tool.__init__\<close> adds.

  Modelled from the spec: \<^verbatim>\<open>JsonObjectWrapper.__init__\<close> (module \<^verbatim>\<open>json_wrappers\<close>) is not
  among the sources. The spec has construction accept nothing (a fresh empty backing
  object), a plain JSON mapping, or another instance of the same type (its serialized
  form is copied); anything else is a type error; a keyword argument sets its field
  after the base initialization. \<^verbatim>\<open>type\<close> is a declared field of every tool, with
  \<^verbatim>\<open>str\<close> for its coercion, and the value set here is a string, which is stored under
  the key \<^verbatim>\<open>type\<close> of the backing object.
\<close>

definition JsonObjectWrapper_init :: "tool_class \<Rightarrow> tool_arg \<Rightarrow> string \<Rightarrow> error + tool" where
  "JsonObjectWrapper_init c json_data type_kwarg =
     (case (case json_data of
              ArgNone \<Rightarrow> Inr []
            | ArgDict d \<Rightarrow> Inr d
            | ArgTool x \<Rightarrow> if issubclass (t_class x) c then Inr (t_json_data x) else Inl TypeError
            | _ \<Rightarrow> Inl TypeError) of
        Inl e \<Rightarrow> Inl e
      | Inr d \<Rightarrow> Inr \<lparr> t_class = c, t_json_data = dict_set ''type'' (JStr type_kwarg) d \<rparr>)"

text \<open>\<^verbatim>\<open>Tool.__init__\<close>: \<^verbatim>\<open>kwargs.update(type=tool_type)\<close>, then the base initialization.\<close>

definition Tool_init :: "tool_class \<Rightarrow> tool_arg \<Rightarrow> error + tool" where
  "Tool_init c obj =
     (case TOOL_TYPE c of
        Inl e \<Rightarrow> Inl e
      | Inr tool_type \<Rightarrow> JsonObjectWrapper_init c obj tool_type)"

text \<open>
  \<^verbatim>\<open>registry[t]\<close>: a string is looked up, \<^verbatim>\<open>KeyError\<close> when it is not a key; \<^verbatim>\<open>None\<close>, a
  boolean and an integer are hashable and never keys; a list or a dictionary is not
  hashable, which is a \<^verbatim>\<open>TypeError\<close>.
\<close>

definition registry_lookup :: "(string, tool_class) dict \<Rightarrow> json option \<Rightarrow> error + tool_class" where
  "registry_lookup registry t =
     (case t of
        Some (JStr s) \<Rightarrow> (case dict_get registry s of None \<Rightarrow> Inl KeyError | Some c \<Rightarrow> Inr c)
      | Some (JList _) \<Rightarrow> Inl TypeError
      | Some (JObj _) \<Rightarrow> Inl TypeError
      | _ \<Rightarrow> Inl KeyError)"

definition factory_new ::
  "(string, tool_class) dict \<Rightarrow> tool_class \<Rightarrow> tool_class \<Rightarrow> bool \<Rightarrow> tool_arg \<Rightarrow> error + tool" where
  "factory_new registry base_class cls allow_str obj =
     (if cls = base_class then
        (case obj of
           ArgTool x \<Rightarrow>
             if issubclass (t_class x) base_class then Tool_init (t_class x) obj
             else Inl TypeError
         | ArgStr s \<Rightarrow>
             if allow_str then
               (case registry_lookup registry (Some (JStr s)) of
                  Inl e \<Rightarrow> Inl e
                | Inr c \<Rightarrow> Tool_init c (ArgDict [(''type'', JStr s)]))
             else Inl TypeError
         | ArgDict d \<Rightarrow>
             (case registry_lookup registry (dict_get d ''type'') of
                Inl e \<Rightarrow> Inl e
              | Inr c \<Rightarrow> Tool_init c obj)
         | _ \<Rightarrow> Inl TypeError)
      else Tool_init cls obj)"

text \<open>The metaclass: \<^verbatim>\<open>Tool(obj)\<close>, and \<^verbatim>\<open>C(obj)\<close> for a class \<^verbatim>\<open>C\<close> of tools.\<close>

definition Tool_call :: "tool_class \<Rightarrow> tool_arg \<Rightarrow> error + tool" where
  "Tool_call cls obj = factory_new tool_types Tool cls True obj"

text \<open>The property \<^verbatim>\<open>type\<close>, where the backing object holds a string under that key.\<close>

definition tool_type :: "tool \<Rightarrow> string option" where
  "tool_type x = (case dict_get (t_json_data x) ''type'' of Some (JStr s) \<Rightarrow> Some s | _ \<Rightarrow> None)"

section \<open>Layouts and their interpolation\<close>

text \<open>
  The numbers of a layout are floating-point values and arrays of them. They are kept
  abstract: \<open>'v\<close> is the type of such a payload (a position vector, a quaternion, a
  zoom factor, a flex weight), \<open>'c\<close> the type of a \<^verbatim>\<open>CrossSectionMap\<close>, \<open>'t\<close> the type
  of the interpolation parameter. The functions that compute with them are the fields
  of a \<open>blend\<close>, which every interpolation below takes as its first argument; each
  may raise.
\<close>

record ('v, 'c, 't) blend =
  interpolate_linear_optional_vectors :: "'v option \<Rightarrow> 'v option \<Rightarrow> 't \<Rightarrow> error + 'v option"
  quaternion_slerp :: "'v option \<Rightarrow> 'v option \<Rightarrow> 't \<Rightarrow> error + 'v option"
  interpolate_zoom :: "'v option \<Rightarrow> 'v option \<Rightarrow> 't \<Rightarrow> error + 'v option"
  CrossSectionMap_interpolate :: "'c \<Rightarrow> 'c \<Rightarrow> 't \<Rightarrow> error + 'c"
  CrossSectionMap_len :: "'c \<Rightarrow> nat"

text \<open>
  A blend to evaluate with: payloads are integers, a cross-section map is the list of
  its keys, and every function returns its first operand. It stands for no
  floating-point arithmetic: it serves where no blend function is called, or where the
  result does not depend on what one returns.
\<close>

definition first_operand :: "(int, string list, int) blend" where
  "first_operand =
     \<lparr> interpolate_linear_optional_vectors = (\<lambda>a b t. Inr a),
       quaternion_slerp = (\<lambda>a b t. Inr a),
       interpolate_zoom = (\<lambda>a b t. Inr a),
       CrossSectionMap_interpolate = (\<lambda>a b t. Inr a),
       CrossSectionMap_len = length \<rparr>"

text \<open>\<^verbatim>\<open>LinkedType\<close>: the link mode and the optional value.\<close>

record 'v Linked =
  link :: string
  l_value :: "'v option"

definition LinkedType_interpolate ::
  "('v option \<Rightarrow> 'v option \<Rightarrow> 't \<Rightarrow> error + 'v option) \<Rightarrow> 'v Linked \<Rightarrow> 'v Linked \<Rightarrow> 't
     \<Rightarrow> error + 'v Linked" where
  "LinkedType_interpolate interpolate_function a b t =
     (let c = a\<lparr> link := link a \<rparr>
      in if link a = link b \<and> link a \<noteq> ''linked'' then
           (case interpolate_function (l_value a) (l_value b) t of
              Inl e \<Rightarrow> Inl e
            | Inr v \<Rightarrow> Inr (c\<lparr> l_value := v \<rparr>))
         else Inr c)"

record 'c DataPanelLayout =
  dp_type :: string
  dp_cross_sections :: 'c
  dp_orthographic_projection :: bool

definition DataPanelLayout_interpolate ::
  "('v, 'c, 't) blend \<Rightarrow> 'c DataPanelLayout \<Rightarrow> 'c DataPanelLayout \<Rightarrow> 't
     \<Rightarrow> error + 'c DataPanelLayout" where
  "DataPanelLayout_interpolate B a b t =
     (if dp_type a \<noteq> dp_type b \<or> CrossSectionMap_len B (dp_cross_sections a) = 0 then Inr a
      else case CrossSectionMap_interpolate B (dp_cross_sections a) (dp_cross_sections b) t of
             Inl e \<Rightarrow> Inl e
           | Inr cs \<Rightarrow> Inr (a\<lparr> dp_cross_sections := cs \<rparr>))"

text \<open>
  \<^verbatim>\<open>LayerGroupViewer\<close>, by the wrapped properties of its class body. The properties
  \<^verbatim>\<open>velocity\<close> and \<^verbatim>\<open>tool_bindings\<close> have no field: nothing below reads their values.
\<close>

record ('v, 'c) LayerGroupViewer =
  lg_type :: string
  lg_flex :: 'v
  lg_layers :: "string list"
  lg_layout :: "'c DataPanelLayout"
  lg_position :: "'v Linked"
  lg_cross_section_orientation :: "'v Linked"
  lg_cross_section_scale :: "'v Linked"
  lg_cross_section_depth :: "'v Linked"
  lg_projection_orientation :: "'v Linked"
  lg_projection_scale :: "'v Linked"
  lg_projection_depth :: "'v Linked"

text \<open>
  What \<^verbatim>\<open>getattr\<close> returns, by the class of the value: the four classes that define
  \<^verbatim>\<open>interpolate\<close>, \<^verbatim>\<open>LinkedDepthRange\<close>, and \<open>AttrPlain\<close> for a string, a number, a
  list or a map.
\<close>

datatype ('v, 'c) attr =
    AttrLayout "'c DataPanelLayout"
  | AttrPosition "'v Linked"
  | AttrOrientation "'v Linked"
  | AttrZoom "'v Linked"
  | AttrDepth "'v Linked"
  | AttrPlain

text \<open>
  Modelled from the spec: attribute access on a wrapped object reads and writes through
  its declared typed fields (\<^verbatim>\<open>JsonObjectWrapper\<close>, module \<^verbatim>\<open>json_wrappers\<close>, is not among
  the sources). The declared fields of \<^verbatim>\<open>LayerGroupViewer\<close> are the names its class
  body assigns; the class has \<^verbatim>\<open>__slots__ = ()\<close>, so any other name is an
  \<^verbatim>\<open>AttributeError\<close>.
\<close>

definition getattr_LayerGroupViewer ::
  "('v, 'c) LayerGroupViewer \<Rightarrow> string \<Rightarrow> error + ('v, 'c) attr" where
  "getattr_LayerGroupViewer a k =
     (if k \<in> {''type'', ''flex'', ''layers'', ''velocity'', ''tool_bindings'', ''toolBindings''}
        then Inr AttrPlain
      else if k = ''layout'' then Inr (AttrLayout (lg_layout a))
      else if k = ''position'' then Inr (AttrPosition (lg_position a))
      else if k \<in> {''cross_section_orientation'', ''crossSectionOrientation''}
        then Inr (AttrOrientation (lg_cross_section_orientation a))
      else if k \<in> {''cross_section_scale'', ''crossSectionScale''}
        then Inr (AttrZoom (lg_cross_section_scale a))
      else if k \<in> {''cross_section_depth'', ''crossSectionDepth''}
        then Inr (AttrDepth (lg_cross_section_depth a))
      else if k \<in> {''projection_orientation'', ''projectionOrientation''}
        then Inr (AttrOrientation (lg_projection_orientation a))
      else if k \<in> {''projection_scale'', ''projectionScale''}
        then Inr (AttrZoom (lg_projection_scale a))
      else if k \<in> {''projection_depth'', ''projectionDepth''}
        then Inr (AttrDepth (lg_projection_depth a))
      else Inl AttributeError)"

definition setattr_LayerGroupViewer ::
  "('v, 'c) LayerGroupViewer \<Rightarrow> string \<Rightarrow> ('v, 'c) attr \<Rightarrow> error + ('v, 'c) LayerGroupViewer" where
  "setattr_LayerGroupViewer c k x =
     (case x of
        AttrLayout y \<Rightarrow> if k = ''layout'' then Inr (c\<lparr> lg_layout := y \<rparr>) else Inl TypeError
      | AttrPosition y \<Rightarrow> if k = ''position'' then Inr (c\<lparr> lg_position := y \<rparr>) else Inl TypeError
      | AttrOrientation y \<Rightarrow>
          if k \<in> {''cross_section_orientation'', ''crossSectionOrientation''}
            then Inr (c\<lparr> lg_cross_section_orientation := y \<rparr>)
          else if k \<in> {''projection_orientation'', ''projectionOrientation''}
            then Inr (c\<lparr> lg_projection_orientation := y \<rparr>)
          else Inl TypeError
      | AttrZoom y \<Rightarrow>
          if k \<in> {''cross_section_scale'', ''crossSectionScale''}
            then Inr (c\<lparr> lg_cross_section_scale := y \<rparr>)
          else if k \<in> {''projection_scale'', ''projectionScale''}
            then Inr (c\<lparr> lg_projection_scale := y \<rparr>)
          else Inl TypeError
      | AttrDepth y \<Rightarrow>
          if k \<in> {''cross_section_depth'', ''crossSectionDepth''}
            then Inr (c\<lparr> lg_cross_section_depth := y \<rparr>)
          else if k \<in> {''projection_depth'', ''projectionDepth''}
            then Inr (c\<lparr> lg_projection_depth := y \<rparr>)
          else Inl TypeError
      | AttrPlain \<Rightarrow> Inl TypeError)"

text \<open>
  \<^verbatim>\<open>type(a_attr).interpolate(a_attr, b_attr, t)\<close>: the class of \<open>a_attr\<close> chooses the
  function. \<^verbatim>\<open>LinkedDepthRange\<close> is made with \<^verbatim>\<open>interpolate_zoom\<close>; a plain value has
  no attribute \<^verbatim>\<open>interpolate\<close>.
\<close>

definition interpolate_attr ::
  "('v, 'c, 't) blend \<Rightarrow> ('v, 'c) attr \<Rightarrow> ('v, 'c) attr \<Rightarrow> 't \<Rightarrow> error + ('v, 'c) attr" where
  "interpolate_attr B a_attr b_attr t =
     (case (a_attr, b_attr) of
        (AttrLayout x, AttrLayout y) \<Rightarrow> map_sum id AttrLayout (DataPanelLayout_interpolate B x y t)
      | (AttrPosition x, AttrPosition y) \<Rightarrow>
          map_sum id AttrPosition
            (LinkedType_interpolate (interpolate_linear_optional_vectors B) x y t)
      | (AttrOrientation x, AttrOrientation y) \<Rightarrow>
          map_sum id AttrOrientation (LinkedType_interpolate (quaternion_slerp B) x y t)
      | (AttrZoom x, AttrZoom y) \<Rightarrow>
          map_sum id AttrZoom (LinkedType_interpolate (interpolate_zoom B) x y t)
      | (AttrDepth x, AttrDepth y) \<Rightarrow>
          map_sum id AttrDepth (LinkedType_interpolate (interpolate_zoom B) x y t)
      | (AttrPlain, _) \<Rightarrow> Inl AttributeError
      | _ \<Rightarrow> Inl TypeError)"

text \<open>The loop of \<^verbatim>\<open>LayerGroupViewer.interpolate\<close> over the names it lists.\<close>

fun interpolate_attrs ::
  "('v, 'c, 't) blend \<Rightarrow> ('v, 'c) LayerGroupViewer \<Rightarrow> ('v, 'c) LayerGroupViewer \<Rightarrow> 't
     \<Rightarrow> ('v, 'c) LayerGroupViewer \<Rightarrow> string list \<Rightarrow> error + ('v, 'c) LayerGroupViewer" where
  "interpolate_attrs B a b t c [] = Inr c"
| "interpolate_attrs B a b t c (k # ks) =
     (case getattr_LayerGroupViewer a k of
        Inl e \<Rightarrow> Inl e
      | Inr a_attr \<Rightarrow>
          (case getattr_LayerGroupViewer b k of
             Inl e \<Rightarrow> Inl e
           | Inr b_attr \<Rightarrow>
               (case interpolate_attr B a_attr b_attr t of
                  Inl e \<Rightarrow> Inl e
                | Inr x \<Rightarrow>
                    (case setattr_LayerGroupViewer c k x of
                       Inl e \<Rightarrow> Inl e
                     | Inr c' \<Rightarrow> interpolate_attrs B a b t c' ks))))"

definition LayerGroupViewer_interpolate ::
  "('v, 'c, 't) blend \<Rightarrow> ('v, 'c) LayerGroupViewer \<Rightarrow> ('v, 'c) LayerGroupViewer \<Rightarrow> 't
     \<Rightarrow> error + ('v, 'c) LayerGroupViewer" where
  "LayerGroupViewer_interpolate B a b t =
     interpolate_attrs B a b t a
       [''layout'', ''position'', ''cross_section_orientation'', ''cross_section_zoom'',
        ''perspective_orientation'', ''perspective_zoom'']"

text \<open>
  A layout node is a \<^verbatim>\<open>DataPanelLayout\<close>, a \<^verbatim>\<open>StackLayout\<close> (its \<^verbatim>\<open>type\<close>, its \<^verbatim>\<open>flex\<close>
  and its children) or a \<^verbatim>\<open>LayerGroupViewer\<close>.
\<close>

datatype ('v, 'c) layout =
    Panel "'c DataPanelLayout"
  | StackLayout string 'v "('v, 'c) layout list"
  | Viewer "('v, 'c) LayerGroupViewer"

datatype layout_class = DataPanelLayout_class | StackLayout_class | LayerGroupViewer_class

fun type_of :: "('v, 'c) layout \<Rightarrow> layout_class" where
  "type_of (Panel _) = DataPanelLayout_class"
| "type_of (StackLayout _ _ _) = StackLayout_class"
| "type_of (Viewer _) = LayerGroupViewer_class"

text \<open>The property \<^verbatim>\<open>type\<close>, which each of the three classes declares.\<close>

fun layout_type :: "('v, 'c) layout \<Rightarrow> string" where
  "layout_type (Panel x) = dp_type x"
| "layout_type (StackLayout ty _ _) = ty"
| "layout_type (Viewer x) = lg_type x"

text \<open>
  \<^verbatim>\<open>interpolate_layout\<close> and \<^verbatim>\<open>StackLayout.interpolate\<close>, which call each other; the
  list comprehension over \<^verbatim>\<open>zip(a.children, b.children)\<close> is \<open>interpolate_children\<close>.
  \<open>StackLayout_interpolate\<close> takes its first operand by its parts (\<open>a\<close> is
  \<open>StackLayout ty fl children\<close>). Every node class has the property \<^verbatim>\<open>type\<close> but only a
  stack has \<^verbatim>\<open>children\<close>, so a second operand of another class and the same \<^verbatim>\<open>type\<close>
  is an \<^verbatim>\<open>AttributeError\<close>; \<open>interpolate_layout\<close> never passes one.
\<close>

fun interpolate_layout ::
  "('v, 'c, 't) blend \<Rightarrow> ('v, 'c) layout \<Rightarrow> ('v, 'c) layout \<Rightarrow> 't \<Rightarrow> error + ('v, 'c) layout"
and StackLayout_interpolate ::
  "('v, 'c, 't) blend \<Rightarrow> string \<Rightarrow> 'v \<Rightarrow> ('v, 'c) layout list \<Rightarrow> ('v, 'c) layout \<Rightarrow> 't
     \<Rightarrow> error + ('v, 'c) layout"
and interpolate_children ::
  "('v, 'c, 't) blend \<Rightarrow> ('v, 'c) layout list \<Rightarrow> ('v, 'c) layout list \<Rightarrow> 't
     \<Rightarrow> error + ('v, 'c) layout list" where
  "interpolate_layout B a b t =
     (if type_of a \<noteq> type_of b then Inr a
      else case a of
             Panel x \<Rightarrow>
               (case b of
                  Panel y \<Rightarrow> map_sum id Panel (DataPanelLayout_interpolate B x y t)
                | _ \<Rightarrow> Inr a)
           | StackLayout ty fl children \<Rightarrow> StackLayout_interpolate B ty fl children b t
           | Viewer x \<Rightarrow>
               (case b of
                  Viewer y \<Rightarrow> map_sum id Viewer (LayerGroupViewer_interpolate B x y t)
                | _ \<Rightarrow> Inr a))"
| "StackLayout_interpolate B ty fl children b t =
     (case b of
        StackLayout ty' fl' children' \<Rightarrow>
          if ty \<noteq> ty' \<or> length children \<noteq> length children' then Inr (StackLayout ty fl children)
          else (case interpolate_children B children children' t of
                  Inl e \<Rightarrow> Inl e
                | Inr cs \<Rightarrow> Inr (StackLayout ty fl cs))
      | _ \<Rightarrow> if ty \<noteq> layout_type b then Inr (StackLayout ty fl children)
             else Inl AttributeError)"
| "interpolate_children B (a_child # as) (b_child # bs) t =
     (case interpolate_layout B a_child b_child t of
        Inl e \<Rightarrow> Inl e
      | Inr c \<Rightarrow>
          (case interpolate_children B as bs t of
             Inl e \<Rightarrow> Inl e
           | Inr cs \<Rightarrow> Inr (c # cs)))"
| "interpolate_children B [] bs t = Inr []"
| "interpolate_children B as [] t = Inr []"

section \<open>Facts about dictionaries and the conversion\<close>

lemma map_of_dict_set: "map_of (dict_set k v d) = (map_of d)(k \<mapsto> v)"
  by (induction d) auto

lemma map_of_dict_pop_default: "map_of (dict_pop_default k d) k = None"
  by (induction d) (auto simp: dict_pop_default_def)

lemma keys_dict_set: "fst ` set (dict_set k v d) = insert k (fst ` set d)"
  by (induction d) auto

lemma dict_pop_default_absent: "\<not> dict_contains d k \<Longrightarrow> dict_pop_default k d = d"
proof -
  assume "\<not> dict_contains d k"
  then have "k \<notin> fst ` set d"
    by (simp add: dict_contains_def map_of_eq_None_iff)
  then have "\<forall>p\<in>set d. fst p \<noteq> k"
    by auto
  then show ?thesis
    by (simp add: dict_pop_default_def)
qed

lemma uint64_range: "0 \<le> uint (w :: 64 word) \<and> uint w < 2 ^ 64"
  using uint_lt2p [of w] by simp

lemma uint64_less: "uint (w :: 64 word) < 18446744073709551616"
  using uint64_range [of w] by simp

section \<open>Facts about StarredSegments\<close>

lemma parse_item_range: "parse_item np item = Inr (k, v) \<Longrightarrow> 0 \<le> k \<and> k < 2 ^ 64"
  by (cases item)
     (auto simp: parse_integral_def Let_def uint64_less
           split: sum.splits if_splits list.splits option.splits pyval.splits)

lemma parse_item_PInt: "parse_item np (PInt i) = Inr (k, v) \<Longrightarrow> k = i \<and> v"
  by (auto simp: parse_integral_def split: sum.splits if_splits)

lemma keys_store: "set (keys (store s k v)) = insert k (set (keys s))"
  by (simp add: store_def keys_def keys_dict_set)

lemma update_items_Cons:
  assumes "update_items np s (item # xs) = Returned s'"
  obtains k v where "parse_item np item = Inr (k, v)"
    and "update_items np (store s k v) xs = Returned s'"
  using assms by (auto split: sum.splits)

lemma update_items_keys:
  "update_items np s xs = Returned s' \<Longrightarrow> \<forall>k\<in>set (keys s). 0 \<le> k \<and> k < 2 ^ 64
     \<Longrightarrow> \<forall>k\<in>set (keys s'). 0 \<le> k \<and> k < 2 ^ 64"
proof (induction xs arbitrary: s)
  case Nil
  then show ?case by simp
next
  case (Cons item xs)
  from Cons.prems(1) obtain k v where p: "parse_item np item = Inr (k, v)"
    and u: "update_items np (store s k v) xs = Returned s'"
    by (rule update_items_Cons)
  have "\<forall>j\<in>set (keys (store s k v)). 0 \<le> j \<and> j < 2 ^ 64"
    using Cons.prems(2) parse_item_range [OF p] by (simp add: keys_store)
  then show ?case using Cons.IH [OF u] by blast
qed

lemma update_items_ints:
  "update_items np s xs = Returned s' \<Longrightarrow> PInt i \<in> set xs \<Longrightarrow> 0 \<le> i \<and> i < 2 ^ 64"
proof (induction xs arbitrary: s)
  case Nil
  then show ?case by simp
next
  case (Cons item xs)
  from Cons.prems(1) obtain k v where p: "parse_item np item = Inr (k, v)"
    and u: "update_items np (store s k v) xs = Returned s'"
    by (rule update_items_Cons)
  show ?case
  proof (cases "item = PInt i")
    case True
    then show ?thesis using p parse_item_range [OF p] parse_item_PInt [of np i k v] by simp
  next
    case False
    then show ?thesis using Cons.IH [OF u] Cons.prems(2) by simp
  qed
qed

lemma init_iterable:
  "StarredSegments_init np (Some (FromIterable xs)) ro = Inr s
     \<Longrightarrow> update_items np \<lparr> s_readonly = ro, s_data = [], s_visible = [] \<rparr> xs = Returned s"
  by (simp add: StarredSegments_init_def update_internal_def split: outcome.splits)

lemma init_too_big:
  "StarredSegments_init np (Some (FromIterable [PInt (2 ^ 64)])) ro =
     Inl (case out_of_range np (2 ^ 64) of Inl e \<Rightarrow> e | Inr w \<Rightarrow> ValueError)"
proof (cases "out_of_range np (2 ^ 64)")
  case (Inl e)
  then show ?thesis
    by (simp add: StarredSegments_init_def update_internal_def parse_integral_def np_uint64_def)
next
  case (Inr w)
  have "uint w \<noteq> 2 ^ 64" using uint64_range [of w] by simp
  with Inr show ?thesis
    by (simp add: StarredSegments_init_def update_internal_def parse_integral_def np_uint64_def)
qed

lemma init_minus_one:
  "StarredSegments_init np (Some (FromIterable [PStr ''-1''])) ro =
     (case not_digits np ''-1'' of
        Inl e \<Rightarrow> Inl e
      | Inr w \<Rightarrow> Inr \<lparr> s_readonly = ro, s_data = [(uint w, True)], s_visible = [(uint w, True)] \<rparr>)"
  by (simp add: StarredSegments_init_def update_internal_def np_uint64_str_def is_digit_def
        startswith_bang_def unmarked_def store_def split: sum.splits)

lemma parse_item_1: "parse_item np (PInt 1) = Inr (1, True)"
  by (simp add: parse_integral_def np_uint64_def)

lemma parse_item_bang_2: "parse_item np (PStr ''!2'') = Inr (2, False)"
  by (simp add: np_uint64_def np_uint64_str_def is_digit_def decimal_def startswith_bang_def
        unmarked_def)

lemma parse_item_pair_3: "parse_item np (PTuple [PInt 3, PBool True]) = Inr (3, True)"
  by (simp add: np_uint64_def)

lemma set_visible_5:
  "set_visible np s [5] = Returned (s\<lparr> s_data := [(5, True)], s_visible := [(5, True)] \<rparr>)"
  by (simp add: set_visible_def np_uint64_def)

text \<open>
  The mutators that consult the flag: on a read-only object each raises
  \<^verbatim>\<open>AttributeError\<close> and leaves the object as it was.
\<close>

lemma read_only_guarded:
  assumes "s_readonly s"
  shows "add s k = Raised AttributeError s"
    and "setitem s k v = Raised AttributeError s"
    and "remove s k = Raised AttributeError s"
    and "delitem s k = Raised AttributeError s"
    and "clear s = Raised AttributeError s"
    and "update np s other = Raised AttributeError s"
  using assms by (simp_all add: add_def setitem_def remove_def delitem_def clear_def update_def)

text \<open>\<^verbatim>\<open>remove\<close> of a segment that is not starred raises \<^verbatim>\<open>KeyError\<close> and changes nothing.\<close>

lemma remove_absent:
  "\<not> s_readonly s \<Longrightarrow> \<not> contains s k \<Longrightarrow> remove s k = Raised KeyError s"
  by (simp add: remove_def contains_def dict_del_def)

text \<open>\<^verbatim>\<open>remove\<close> of a starred segment that is visible returns and unstars it.\<close>

lemma remove_visible:
  "\<not> s_readonly s \<Longrightarrow> contains s k \<Longrightarrow> dict_contains (s_visible s) k
     \<Longrightarrow> remove s k = Returned (s\<lparr> s_data := dict_pop_default k (s_data s),
                                      s_visible := dict_pop_default k (s_visible s) \<rparr>)"
  by (simp add: remove_def contains_def dict_del_def)

text \<open>\<^verbatim>\<open>remove\<close> of a starred segment that is hidden raises after \<^verbatim>\<open>_data\<close> has lost it.\<close>

lemma remove_hidden:
  "\<not> s_readonly s \<Longrightarrow> contains s k \<Longrightarrow> \<not> dict_contains (s_visible s) k
     \<Longrightarrow> remove s k = Raised KeyError (s\<lparr> s_data := dict_pop_default k (s_data s) \<rparr>)"
  by (simp add: remove_def contains_def dict_del_def)

text \<open>\<^verbatim>\<open>discard\<close> of a segment in neither dictionary returns and changes nothing.\<close>

lemma discard_absent:
  "\<not> contains s k \<Longrightarrow> \<not> dict_contains (s_visible s) k \<Longrightarrow> discard s k = Returned s"
  by (simp add: discard_def contains_def dict_pop_default_absent)

text \<open>
  \<^verbatim>\<open>copy\<close>: the loop over the keys of the source raises at the first key, so only a
  source with no starred segment is copied.
\<close>

lemma copy_nonempty: "s_data s \<noteq> [] \<Longrightarrow> copy np s = Inl TypeError"
  by (cases "s_data s")
     (simp_all add: copy_def StarredSegments_init_def update_internal_def unpack_key_def Let_def)

lemma copy_empty:
  "s_data s = [] \<Longrightarrow>
     copy np s = Inr \<lparr> s_readonly = False, s_data = [], s_visible = dict_update [] (s_visible s) \<rparr>"
  by (simp add: copy_def StarredSegments_init_def update_internal_def Let_def)

section \<open>Facts about layouts\<close>

text \<open>
  \<^verbatim>\<open>LayerGroupViewer.interpolate\<close> raises whatever the two viewers, the parameter and
  the blend are: when no blend raises before, \<^verbatim>\<open>getattr(a, "cross_section_zoom")\<close> does.
\<close>

lemma LayerGroupViewer_interpolate_raises: "\<exists>e. LayerGroupViewer_interpolate B a b t = Inl e"
  by (auto simp: LayerGroupViewer_interpolate_def getattr_LayerGroupViewer_def
        setattr_LayerGroupViewer_def interpolate_attr_def split: sum.splits)

section \<open>The claims\<close>

subsection \<open>C1: update, then the setter of visible\<close>

text \<open>
  Claim C1, as the code has it. \<^verbatim>\<open>update\<close> consults the read-only flag, so the claim
  holds of the objects that are not read-only: for every such \<open>s\<close>, whatever it holds,
  \<^verbatim>\<open>s.update([1, "!2", (3, True)])\<close> returns, and afterwards \<^verbatim>\<open>s[1]\<close> is \<^verbatim>\<open>True\<close>,
  \<^verbatim>\<open>s[2]\<close> is \<^verbatim>\<open>False\<close> and \<^verbatim>\<open>s[3]\<close> is \<^verbatim>\<open>True\<close>; then \<^verbatim>\<open>s.visible = [5]\<close> returns
  and leaves \<^verbatim>\<open>_data\<close> equal to \<^verbatim>\<open>{5: True}\<close>, so that \<^verbatim>\<open>s == {5: True}\<close>: the starred
  set is overwritten, not merged. This holds for every behaviour of the conversion
  outside the unsigned 64-bit range.
\<close>

theorem update_then_visible_overwrites:
  assumes "\<not> s_readonly s"
  shows "\<exists>s'. update np s (FromIterable [PInt 1, PStr ''!2'', PTuple [PInt 3, PBool True]])
                = Returned s'
            \<and> getitem s' 1 = Inr True \<and> getitem s' 2 = Inr False \<and> getitem s' 3 = Inr True
            \<and> (\<exists>s''. set_visible np s' [5] = Returned s'' \<and> s_data s'' = [(5, True)]
                      \<and> eq_dict s'' [(5, True)])"
proof -
  let ?s' = "store (store (store s 1 True) 2 False) 3 True"
  have u: "update np s (FromIterable [PInt 1, PStr ''!2'', PTuple [PInt 3, PBool True]])
             = Returned ?s'"
    using assms
    by (simp add: update_def update_internal_def parse_item_1 parse_item_bang_2 parse_item_pair_3
          del: parse_item.simps)
  have g: "getitem ?s' 1 = Inr True" "getitem ?s' 2 = Inr False" "getitem ?s' 3 = Inr True"
    by (simp_all add: getitem_def dict_get_def store_def map_of_dict_set)
  let ?s'' = "?s'\<lparr> s_data := [(5, True)], s_visible := [(5, True)] \<rparr>"
  have v: "set_visible np ?s' [5] = Returned ?s''"
    by (rule set_visible_5)
  have e: "s_data ?s'' = [(5, True)]" "eq_dict ?s'' [(5, True)]"
    by (simp_all add: eq_dict_def dict_eq_def)
  from u g v e show ?thesis by blast
qed

text \<open>
  The theorem at an object that already stars segment 2 as visible and segment 7 as
  hidden, with the conversion of NumPy 2.
\<close>

theorem update_then_visible_overwrites_witness:
  "\<not> s_readonly \<lparr> s_readonly = False, s_data = [(2, True), (7, False)], s_visible = [(2, True)] \<rparr>
   \<and> (\<exists>s'. update numpy2
               \<lparr> s_readonly = False, s_data = [(2, True), (7, False)], s_visible = [(2, True)] \<rparr>
               (FromIterable [PInt 1, PStr ''!2'', PTuple [PInt 3, PBool True]]) = Returned s'
            \<and> getitem s' 1 = Inr True \<and> getitem s' 2 = Inr False \<and> getitem s' 3 = Inr True
            \<and> (\<exists>s''. set_visible numpy2 s' [5] = Returned s'' \<and> s_data s'' = [(5, True)]
                      \<and> eq_dict s'' [(5, True)]))"
proof -
  have h: "\<not> s_readonly
             \<lparr> s_readonly = False, s_data = [(2, True), (7, False)], s_visible = [(2, True)] \<rparr>"
    by simp
  from h update_then_visible_overwrites [OF h, of numpy2] show ?thesis by blast
qed

text \<open>
  Claim C1 as it is worded, for every \<^verbatim>\<open>StarredSegments\<close>, fails at the empty read-only
  object: \<^verbatim>\<open>update\<close> raises \<^verbatim>\<open>AttributeError\<close> and stores nothing, and \<^verbatim>\<open>s[1]\<close> is a
  \<^verbatim>\<open>KeyError\<close>.
\<close>

theorem update_read_only_counterexample:
  "update numpy2 \<lparr> s_readonly = True, s_data = [], s_visible = [] \<rparr>
       (FromIterable [PInt 1, PStr ''!2'', PTuple [PInt 3, PBool True]])
     = Raised AttributeError \<lparr> s_readonly = True, s_data = [], s_visible = [] \<rparr>
   \<and> getitem \<lparr> s_readonly = True, s_data = [], s_visible = [] \<rparr> 1 = Inl KeyError"
  by (simp add: update_def getitem_def dict_get_def)

subsection \<open>C3: the discriminant of a tool\<close>

text \<open>
  Claim C3. \<^verbatim>\<open>Tool("blend")\<close> is an instance of \<^verbatim>\<open>BlendTool\<close>, a subclass of \<^verbatim>\<open>Tool\<close>, whose
  backing object is \<^verbatim>\<open>{"type": "blend"}\<close>, so that its \<^verbatim>\<open>type\<close> is \<^verbatim>\<open>"blend"\<close>;
  \<^verbatim>\<open>Tool({"type": "nonexistentTool"})\<close> raises \<^verbatim>\<open>KeyError\<close>, which is neither
  \<^verbatim>\<open>TypeError\<close> nor \<^verbatim>\<open>ValueError\<close>.
\<close>

theorem tool_discriminant_dispatch:
  "Tool_call Tool (ArgStr ''blend'')
     = Inr \<lparr> t_class = BlendTool, t_json_data = [(''type'', JStr ''blend'')] \<rparr>
   \<and> tool_type \<lparr> t_class = BlendTool, t_json_data = [(''type'', JStr ''blend'')] \<rparr>
     = Some ''blend''
   \<and> issubclass BlendTool Tool
   \<and> Tool_call Tool (ArgDict [(''type'', JStr ''nonexistentTool'')]) = Inl KeyError
   \<and> KeyError \<noteq> TypeError \<and> KeyError \<noteq> ValueError"
  by (simp add: Tool_call_def factory_new_def registry_lookup_def dict_get_def tool_types_def
        Tool_init_def TOOL_TYPE_def JsonObjectWrapper_init_def tool_type_def issubclass_def)

subsection \<open>C4: layouts that do not blend\<close>

text \<open>
  Claim C4. For every two layout nodes \<open>a\<close> and \<open>b\<close>, every parameter and every
  blend: when \<open>a\<close> and \<open>b\<close> are of different classes, \<^verbatim>\<open>interpolate_layout\<close> returns
  \<open>a\<close>; when both are stacks whose \<^verbatim>\<open>type\<close> differs or whose numbers of children
  differ, \<^verbatim>\<open>interpolate_layout\<close> and \<^verbatim>\<open>StackLayout.interpolate\<close> return \<open>a\<close>. Nothing is
  raised and no child is blended.
\<close>

theorem layout_interpolation_degrades:
  "(type_of a \<noteq> type_of b \<longrightarrow> interpolate_layout B a b t = Inr a)
   \<and> (ty \<noteq> ty' \<or> length ch \<noteq> length ch' \<longrightarrow>
        interpolate_layout B (StackLayout ty fl ch) (StackLayout ty' fl' ch') t
          = Inr (StackLayout ty fl ch)
      \<and> StackLayout_interpolate B ty fl ch (StackLayout ty' fl' ch') t
          = Inr (StackLayout ty fl ch))"
  by auto

text \<open>
  The theorem at a panel against a stack, and at a row of two panels against a column
  of the same two panels.
\<close>

theorem layout_interpolation_degrades_witness:
  "type_of (Panel \<lparr> dp_type = ''xy'', dp_cross_sections = [''a''],
                    dp_orthographic_projection = False \<rparr> :: (int, string list) layout)
     \<noteq> type_of (StackLayout ''row'' 1 [] :: (int, string list) layout)
   \<and> interpolate_layout first_operand
        (Panel \<lparr> dp_type = ''xy'', dp_cross_sections = [''a''],
                 dp_orthographic_projection = False \<rparr>)
        (StackLayout ''row'' 1 []) 0
      = Inr (Panel \<lparr> dp_type = ''xy'', dp_cross_sections = [''a''],
                      dp_orthographic_projection = False \<rparr>)
   \<and> ''row'' \<noteq> ''column''
   \<and> interpolate_layout first_operand
        (StackLayout ''row'' 1
           [Panel \<lparr> dp_type = ''xy'', dp_cross_sections = [], dp_orthographic_projection = False \<rparr>,
            Panel \<lparr> dp_type = ''3d'', dp_cross_sections = [], dp_orthographic_projection = False \<rparr>])
        (StackLayout ''column'' 1
           [Panel \<lparr> dp_type = ''xy'', dp_cross_sections = [], dp_orthographic_projection = False \<rparr>,
            Panel \<lparr> dp_type = ''3d'', dp_cross_sections = [], dp_orthographic_projection = False \<rparr>])
        0
      = Inr (StackLayout ''row'' 1
           [Panel \<lparr> dp_type = ''xy'', dp_cross_sections = [], dp_orthographic_projection = False \<rparr>,
            Panel \<lparr> dp_type = ''3d'', dp_cross_sections = [], dp_orthographic_projection = False \<rparr>])"
proof -
  let ?p = "Panel \<lparr> dp_type = ''xy'', dp_cross_sections = [''a''],
                    dp_orthographic_projection = False \<rparr> :: (int, string list) layout"
  let ?ch = "[Panel \<lparr> dp_type = ''xy'', dp_cross_sections = [], dp_orthographic_projection = False \<rparr>,
              Panel \<lparr> dp_type = ''3d'', dp_cross_sections = [], dp_orthographic_projection = False \<rparr>]
             :: (int, string list) layout list"
  have h1: "type_of ?p \<noteq> type_of (StackLayout ''row'' 1 [] :: (int, string list) layout)"
    by simp
  have h2: "''row'' \<noteq> ''column'' \<or> length ?ch \<noteq> length ?ch"
    by simp
  from layout_interpolation_degrades
         [of ?p "StackLayout ''row'' 1 []" first_operand 0 "''row''" "''column''" ?ch ?ch 1 1]
       h1 h2
  show ?thesis by simp
qed

subsection \<open>C5: copy\<close>

text \<open>
  Claim C5 fails on the code. \<^verbatim>\<open>StarredSegments([1])\<close> is the object that stars
  segment 1 as visible, and its \<^verbatim>\<open>copy()\<close> raises \<^verbatim>\<open>TypeError\<close>: the loop of \<^verbatim>\<open>_update\<close>
  over \<^verbatim>\<open>other._data\<close> unpacks a key as a pair. (\<open>copy_nonempty\<close> has it for every
  object that stars a segment, \<open>copy_empty\<close> the copy of the others.)
\<close>

theorem copy_raises:
  "StarredSegments_init numpy2 (Some (FromIterable [PInt 1])) False
     = Inr \<lparr> s_readonly = False, s_data = [(1, True)], s_visible = [(1, True)] \<rparr>
   \<and> copy numpy2 \<lparr> s_readonly = False, s_data = [(1, True)], s_visible = [(1, True)] \<rparr>
     = Inl TypeError"
  by (simp add: StarredSegments_init_def update_internal_def parse_integral_def np_uint64_def
        store_def copy_def unpack_key_def)

subsection \<open>C6: remove\<close>

text \<open>
  Claim C6 fails on the code. \<^verbatim>\<open>StarredSegments(["!2"])\<close> stars segment 2 as hidden;
  \<^verbatim>\<open>remove(2)\<close> on it raises \<^verbatim>\<open>KeyError\<close>, from \<^verbatim>\<open>self._visible.pop(segment_id)\<close>, after
  \<^verbatim>\<open>_data\<close> has lost the segment. (\<open>remove_hidden\<close> has it for every hidden segment;
  \<open>remove_visible\<close>, \<open>remove_absent\<close> and \<open>discard_absent\<close> are the parts of the
  claim that hold.)
\<close>

theorem remove_hidden_raises:
  "StarredSegments_init numpy2 (Some (FromIterable [PStr ''!2''])) False
     = Inr \<lparr> s_readonly = False, s_data = [(2, False)], s_visible = [] \<rparr>
   \<and> contains \<lparr> s_readonly = False, s_data = [(2, False)], s_visible = [] \<rparr> 2
   \<and> remove \<lparr> s_readonly = False, s_data = [(2, False)], s_visible = [] \<rparr> 2
     = Raised KeyError \<lparr> s_readonly = False, s_data = [], s_visible = [] \<rparr>"
  by (simp add: StarredSegments_init_def update_internal_def np_uint64_def np_uint64_str_def
        is_digit_def decimal_def startswith_bang_def unmarked_def store_def contains_def
        dict_contains_def remove_def dict_del_def dict_pop_default_def)

subsection \<open>C7: the read-only flag\<close>

text \<open>
  Claim C7 fails on the code. \<^verbatim>\<open>discard\<close> does not consult the flag: on the read-only
  object that stars segment 1 it returns, and the segment is gone. (\<open>read_only_guarded\<close>
  has the six other mutators raise \<^verbatim>\<open>AttributeError\<close> and change nothing.)
\<close>

theorem discard_ignores_read_only:
  "discard \<lparr> s_readonly = True, s_data = [(1, True)], s_visible = [(1, True)] \<rparr> 1
     = Returned \<lparr> s_readonly = True, s_data = [], s_visible = [] \<rparr>"
  by (simp add: discard_def dict_pop_default_def)

subsection \<open>C8: the bounds of a segment id\<close>

text \<open>
  What holds of the bounds, for every behaviour of the conversion outside the range:
  when the construction from a sequence succeeds, every integer of the sequence is in
  \<open>0 .. 2^64 - 1\<close> and so is every key stored.
\<close>

lemma accepted_ids_in_range:
  assumes "StarredSegments_init np (Some (FromIterable xs)) ro = Inr s"
  shows "(\<forall>i. PInt i \<in> set xs \<longrightarrow> 0 \<le> i \<and> i < 2 ^ 64)
         \<and> (\<forall>k\<in>set (keys s). 0 \<le> k \<and> k < 2 ^ 64)"
proof (intro conjI allI impI)
  fix i
  assume "PInt i \<in> set xs"
  then show "0 \<le> i" and "i < 2 ^ 64"
    using update_items_ints [OF init_iterable [OF assms]] by blast+
next
  show "\<forall>k\<in>set (keys s). 0 \<le> k \<and> k < 2 ^ 64"
    using update_items_keys [OF init_iterable [OF assms]] by (simp add: keys_def)
qed


subsection \<open>C9: the interpolation of a LayerGroupViewer\<close>

text \<open>
  Claim C9 fails on the code. \<^verbatim>\<open>LayerGroupViewer.interpolate\<close> of a viewer with itself,
  every link \<^verbatim>\<open>linked\<close>, raises \<^verbatim>\<open>AttributeError\<close>: after \<^verbatim>\<open>layout\<close>, \<^verbatim>\<open>position\<close> and
  \<^verbatim>\<open>cross_section_orientation\<close> the loop asks for \<^verbatim>\<open>cross_section_zoom\<close>, which the
  class does not declare. (\<open>LayerGroupViewer_interpolate_raises\<close> has a raise for
  every pair of viewers.)
\<close>

theorem LayerGroupViewer_interpolate_attribute_error:
  "LayerGroupViewer_interpolate first_operand
     \<lparr> lg_type = ''viewer'', lg_flex = 1, lg_layers = [],
       lg_layout = \<lparr> dp_type = ''xy'', dp_cross_sections = [],
                     dp_orthographic_projection = False \<rparr>,
       lg_position = \<lparr> link = ''linked'', l_value = None \<rparr>,
       lg_cross_section_orientation = \<lparr> link = ''linked'', l_value = None \<rparr>,
       lg_cross_section_scale = \<lparr> link = ''linked'', l_value = None \<rparr>,
       lg_cross_section_depth = \<lparr> link = ''linked'', l_value = None \<rparr>,
       lg_projection_orientation = \<lparr> link = ''linked'', l_value = None \<rparr>,
       lg_projection_scale = \<lparr> link = ''linked'', l_value = None \<rparr>,
       lg_projection_depth = \<lparr> link = ''linked'', l_value = None \<rparr> \<rparr>
     \<lparr> lg_type = ''viewer'', lg_flex = 1, lg_layers = [],
       lg_layout = \<lparr> dp_type = ''xy'', dp_cross_sections = [],
                     dp_orthographic_projection = False \<rparr>,
       lg_position = \<lparr> link = ''linked'', l_value = None \<rparr>,
       lg_cross_section_orientation = \<lparr> link = ''linked'', l_value = None \<rparr>,
       lg_cross_section_scale = \<lparr> link = ''linked'', l_value = None \<rparr>,
       lg_cross_section_depth = \<lparr> link = ''linked'', l_value = None \<rparr>,
       lg_projection_orientation = \<lparr> link = ''linked'', l_value = None \<rparr>,
       lg_projection_scale = \<lparr> link = ''linked'', l_value = None \<rparr>,
       lg_projection_depth = \<lparr> link = ''linked'', l_value = None \<rparr> \<rparr>
     0
   = Inl AttributeError"
  by (simp add: LayerGroupViewer_interpolate_def getattr_LayerGroupViewer_def
        setattr_LayerGroupViewer_def interpolate_attr_def first_operand_def
        DataPanelLayout_interpolate_def LinkedType_interpolate_def)

subsection \<open>C10: an archived layer is not visible\<close>

text \<open>
  Claim C10. For every \<^verbatim>\<open>ManagedLayer\<close>, the property \<^verbatim>\<open>visible\<close> is true exactly when
  \<^verbatim>\<open>archived\<close> is false and the stored flag is not \<^verbatim>\<open>False\<close>; \<^verbatim>\<open>to_json()\<close> has no key
  \<^verbatim>\<open>visible\<close> when the layer is visible or archived and has \<^verbatim>\<open>"visible": false\<close>
  otherwise, so that the key is there exactly for a layer that is not archived and
  whose stored flag is \<^verbatim>\<open>False\<close>.
\<close>

theorem archived_overrides_visible:
  "ManagedLayer_visible m = (\<not> m_archived m \<and> m_visible m \<noteq> Some False)
   \<and> dict_get (ManagedLayer_to_json m) ''visible''
       = (if ManagedLayer_visible m \<or> m_archived m then None else Some (JBool False))
   \<and> dict_contains (ManagedLayer_to_json m) ''visible''
       = (\<not> m_archived m \<and> m_visible m = Some False)"
  by (auto simp: ManagedLayer_visible_def ManagedLayer_to_json_def Let_def dict_get_def
        dict_contains_def map_of_dict_pop_default map_of_dict_set)

end
